theory Spec2Isabelle
  imports Main "HOL-Library.Sublist"
begin

section \<open>Python string primitives used by app.py\<close>

text \<open>
  A Python \<open>str\<close> is modelled as a \<open>string\<close>: a list of characters, each read as the
  code point below 256 that it denotes; texts with other code points are outside the
  model. The primitives below are the \<open>str\<close> methods that app.py calls, with the
  result the interpreter returns.
\<close>

definition newline :: char where
  "newline = CHR 0x0A"

definition backtick :: char where
  "backtick = CHR 0x60"

definition nul :: char where
  "nul = CHR 0x00"

text \<open>
  \<open>str.strip()\<close> without argument removes the characters for which \<open>str.isspace\<close>
  holds. Below 256 these are the code points 9 to 13, 28 to 32, 133 and 160.
\<close>

definition py_isspace :: "char \<Rightarrow> bool" where
  "py_isspace c =
     (let n = (of_char c :: nat)
      in (9 \<le> n \<and> n \<le> 13) \<or> (28 \<le> n \<and> n \<le> 32) \<or> n = 133 \<or> n = 160)"

text \<open>\<open>s.strip(chars)\<close>: drop from both ends while the character is in the set.\<close>

definition strip_while :: "(char \<Rightarrow> bool) \<Rightarrow> string \<Rightarrow> string" where
  "strip_while P s = rev (dropWhile P (rev (dropWhile P s)))"

text \<open>\<open>s.strip()\<close>\<close>

definition strip :: "string \<Rightarrow> string" where
  "strip s = strip_while py_isspace s"

text \<open>
  \<open>s.strip("```")\<close>: the argument is a set of characters, here the one-element set
  holding the backtick.
\<close>

definition strip_backticks :: "string \<Rightarrow> string" where
  "strip_backticks s = strip_while (\<lambda>c. c = backtick) s"

text \<open>
  \<open>s.split(sep)\<close> for a non-empty separator: the pieces between the non-overlapping
  occurrences of \<open>sep\<close>, found from the left. The result is never the empty list.
  (Python raises ValueError for an empty separator; app.py only passes the literal
  \<open>"### FILE: "\<close>, and here an empty separator splits nothing.)
\<close>

fun py_split :: "string \<Rightarrow> string \<Rightarrow> string list" where
  "py_split sep [] = [[]]"
| "py_split sep (c # cs) =
     (if sep \<noteq> [] \<and> prefix sep (c # cs)
      then [] # py_split sep (drop (length sep) (c # cs))
      else (case py_split sep cs of
              [] \<Rightarrow> [[c]]
            | x # xs \<Rightarrow> (c # x) # xs))"

text \<open>
  \<open>s.split("\n", 1)\<close> followed by unpacking into two names: the text before the first
  newline and the text after it. Without a newline the split returns one piece and
  the unpacking raises ValueError, which is \<open>None\<close> here.
\<close>

definition split_newline_once :: "string \<Rightarrow> (string \<times> string) option" where
  "split_newline_once s =
     (if newline \<in> set s
      then Some (takeWhile (\<lambda>c. c \<noteq> newline) s, tl (dropWhile (\<lambda>c. c \<noteq> newline) s))
      else None)"

definition file_marker :: string where
  "file_marker = ''### FILE: ''"

section \<open>What the page shows\<close>

text \<open>
  The calls into the UI library that the handlers make, in the order they are made.
  The static parts of the page (title, sidebar widgets, footer) are the same in every
  run and are left out.
\<close>

type_synonym zipfile = "(string \<times> string) list"

datatype ui =
    StError string
  | StWarning string
  | SidebarWarning string
  | Subheader string
  | ComponentsHtml string
  | DownloadButton zipfile string
  | UncaughtAttributeError string

datatype framework = React | HtmlCssJs | Angular

text \<open>The three options of the selectbox, as the strings the script compares with.\<close>

fun framework_name :: "framework \<Rightarrow> string" where
  "framework_name React = ''React''"
| "framework_name HtmlCssJs = ''HTML/CSS/JavaScript''"
| "framework_name Angular = ''Angular''"

text \<open>\<open>framework.lower()\<close> on these three strings.\<close>

fun framework_lower :: "framework \<Rightarrow> string" where
  "framework_lower React = ''react''"
| "framework_lower HtmlCssJs = ''html/css/javascript''"
| "framework_lower Angular = ''angular''"

section \<open>The live-preview extraction loop (app.py, lines 194 to 219)\<close>

record preview_vars =
  html_code :: string
  css_code :: string
  js_code :: string

definition unexpected_format :: "string \<Rightarrow> string" where
  "unexpected_format section = ''Unexpected format in section: '' @ take 30 section @ ''...''"

text \<open>
  One iteration per element of \<open>sections\<close>; the three variables and the warnings shown
  so far are threaded through. The ValueError of the unpacking is caught inside the
  loop body, so the loop goes on with the next section.
\<close>

fun preview_sections :: "string list \<Rightarrow> preview_vars \<Rightarrow> ui list \<Rightarrow> preview_vars \<times> ui list" where
  "preview_sections [] v out = (v, out)"
| "preview_sections (section # sections) v out =
     (if strip section = [] then preview_sections sections v out
      else (case split_newline_once section of
              None \<Rightarrow>
                preview_sections sections v (out @ [StWarning (unexpected_format section)])
            | Some (file_name, body) \<Rightarrow>
                (let file_content = strip (strip_backticks body)
                 in if strip file_name = ''index.html''
                    then preview_sections sections (v\<lparr>html_code := file_content\<rparr>) out
                    else if strip file_name = ''styles.css''
                    then preview_sections sections (v\<lparr>css_code := file_content\<rparr>) out
                    else if strip file_name = ''script.js''
                    then preview_sections sections (v\<lparr>js_code := file_content\<rparr>) out
                    else preview_sections sections v out)))"

definition complete_html :: "preview_vars \<Rightarrow> string" where
  \<open>complete_html v =
     ''\<newline><!DOCTYPE html>\<newline><html lang="en">\<newline><head>\<newline>'' @
     ''    <meta charset="UTF-8">\<newline>'' @
     ''    <meta name="viewport" content="width=device-width, initial-scale=1.0">\<newline>'' @
     ''    <title>Live Preview</title>\<newline>    <style>\<newline>    '' @
     css_code v @
     ''\<newline>    </style>\<newline></head>\<newline><body>\<newline>    '' @
     html_code v @
     ''\<newline>    <script>\<newline>    '' @
     js_code v @
     ''\<newline>    </script>\<newline></body>\<newline></html>\<newline>                            ''\<close>

definition preview_warning :: string where
  "preview_warning =
     ''Unable to extract HTML, CSS, and JS for live preview. '' @
     ''Please ensure the generated code includes proper file markers.''"

text \<open>Lines 192 to 249: the body of \<open>if framework == "HTML/CSS/JavaScript"\<close>.\<close>

definition live_preview :: "string \<Rightarrow> ui list" where
  "live_preview generated_code =
     (let (v, out) = preview_sections (py_split file_marker generated_code)
                       \<lparr>html_code = [], css_code = [], js_code = []\<rparr> []
      in if html_code v \<noteq> [] \<and> css_code v \<noteq> [] \<and> js_code v \<noteq> []
         then out @ [Subheader ''Live Preview'', ComponentsHtml (complete_html v)]
         else out @ [StWarning preview_warning])"

section \<open>create_zip_file (app.py, lines 254 to 350)\<close>

text \<open>
  The archive under construction is the list of its members in the order written,
  each a file name with its data; time stamps and compression are not modelled.
  \<open>ZipFile.writestr\<close> (CPython 3.11) stores the name cut at its first NUL character
  and appends a member, also when the name is already there (the library then only
  issues a Python warning). It raises instead of writing in two cases: IndexError
  when the stored name is empty (it reads the last character of the name), and
  \<open>struct.error\<close> when the stored name, encoded for the file header, is longer than
  65535 bytes. The header holds the name in ASCII if it is ASCII and in UTF-8
  otherwise, so a code point from 128 on takes two bytes. Neither exception is a
  ValueError. \<open>ZipFile.namelist\<close> lists the stored names.
\<close>

datatype zip_exception = IndexError | StructError

text \<open>\<open>str(e)\<close> for the two exceptions.\<close>

fun exception_str :: "zip_exception \<Rightarrow> string" where
  "exception_str IndexError = ''string index out of range''"
| "exception_str StructError = ''ushort format requires 0 <= number <= 65535''"

definition zip_filename :: "string \<Rightarrow> string" where
  "zip_filename name = takeWhile (\<lambda>c. c \<noteq> nul) name"

definition encoded_length :: "string \<Rightarrow> nat" where
  "encoded_length name = length name + length (filter (\<lambda>c. 128 \<le> (of_char c :: nat)) name)"

definition writestr :: "zipfile \<Rightarrow> string \<Rightarrow> string \<Rightarrow> zip_exception + zipfile" where
  "writestr zf name data =
     (let filename = zip_filename name
      in if filename = [] then Inl IndexError
         else if 65535 < encoded_length filename then Inl StructError
         else Inr (zf @ [(filename, data)]))"

definition namelist :: "zipfile \<Rightarrow> string list" where
  "namelist zf = map fst zf"

text \<open>
  The section loop. It is written three times in the source, once per framework
  (lines 260 to 271, 281 to 292, 302 to 313), each time with the same text.
  The \<open>except ValueError\<close> of the loop body catches the failed unpacking only: an
  exception of \<open>writestr\<close> leaves the loop, and the sections after it are not
  looked at. The result is the archive and the warnings so far, and the exception that
  ended the loop, if any.
\<close>

fun write_sections ::
  "string list \<Rightarrow> zipfile \<Rightarrow> ui list \<Rightarrow> zipfile \<times> ui list \<times> zip_exception option" where
  "write_sections [] zf out = (zf, out, None)"
| "write_sections (section # sections) zf out =
     (if strip section = [] then write_sections sections zf out
      else (case split_newline_once section of
              None \<Rightarrow>
                write_sections sections zf (out @ [StWarning (unexpected_format section)])
            | Some (file_name, body) \<Rightarrow>
                (let file_content = strip (strip_backticks body);
                     file_path = strip file_name
                 in case writestr zf file_path file_content of
                      Inl e \<Rightarrow> (zf, out, Some e)
                    | Inr zf \<Rightarrow> write_sections sections zf out)))"

text \<open>
  The loop over \<open>required_files\<close>; \<open>placeholder\<close> is the f-string of the branch.
  Here too an exception of \<open>writestr\<close> ends the loop.
\<close>

fun add_required ::
  "(string \<Rightarrow> string) \<Rightarrow> string list \<Rightarrow> zipfile \<Rightarrow> zipfile \<times> zip_exception option" where
  "add_required placeholder [] zf = (zf, None)"
| "add_required placeholder (req_file # required_files) zf =
     (if req_file \<notin> set (namelist zf)
      then (case writestr zf req_file (placeholder req_file) of
              Inl e \<Rightarrow> (zf, Some e)
            | Inr zf \<Rightarrow> add_required placeholder required_files zf)
      else add_required placeholder required_files zf)"

definition slash_placeholder :: "string \<Rightarrow> string" where
  "slash_placeholder req_file = ''// '' @ req_file @ '' content missing''"

definition star_placeholder :: "string \<Rightarrow> string" where
  "star_placeholder req_file = ''/* '' @ req_file @ '' content missing */''"

fun required_files :: "framework \<Rightarrow> string list" where
  "required_files React =
     [''public/index.html'', ''src/App.js'', ''src/index.js'', ''package.json'']"
| "required_files HtmlCssJs = [''index.html'', ''styles.css'', ''script.js'']"
| "required_files Angular =
     [''angular.json'', ''src/app/app.module.ts'', ''src/app/app.component.ts'',
      ''src/app/app.component.html'']"

fun placeholder :: "framework \<Rightarrow> string \<Rightarrow> string" where
  "placeholder React = slash_placeholder"
| "placeholder HtmlCssJs = star_placeholder"
| "placeholder Angular = slash_placeholder"

definition readme_content :: "framework \<Rightarrow> string" where
  "readme_content framework =
     ''\<newline># Generated '' @ framework_name framework @ '' Frontend\<newline>\<newline>'' @
     ''## Setup Instructions\<newline>\<newline>'' @
     ''### React:\<newline>1. Navigate to the project directory.\<newline>'' @
     ''2. Run `npm install` to install dependencies.\<newline>'' @
     ''3. Run `npm start` to start the development server.\<newline>\<newline>'' @
     ''### HTML/CSS/JavaScript:\<newline>'' @
     ''1. Open `index.html` in your preferred web browser.\<newline>\<newline>'' @
     ''### Angular:\<newline>1. Navigate to the project directory.\<newline>'' @
     ''2. Run `npm install` to install dependencies.\<newline>'' @
     ''3. Run `ng serve` to start the development server.\<newline>\<newline>'' @
     ''## Deployment\<newline>\<newline>'' @
     ''The project is ready to be deployed on platforms like Netlify, Vercel, or GitHub Pages.'' @
     ''\<newline>            ''"

text \<open>Line 347: the message of the \<open>except Exception\<close> branch.\<close>

definition zip_error :: "zip_exception \<Rightarrow> ui" where
  "zip_error e = StError (''Error while creating ZIP file: '' @ exception_str e)"

text \<open>
  The function returns the buffer; the messages it shows on the way are returned with
  it. An exception in the \<open>try\<close> block of line 257 skips the rest of the block, the
  placeholders and the README included, and is reported by line 347. The archive is
  closed when the \<open>with\<close> block is left, so the buffer then holds the members
  written before the exception.
\<close>

definition create_zip_file :: "string \<Rightarrow> framework \<Rightarrow> zipfile \<times> ui list" where
  "create_zip_file code framework =
     (case write_sections (py_split file_marker code) [] [] of
        (zf, out, Some e) \<Rightarrow> (zf, out @ [zip_error e])
      | (zf, out, None) \<Rightarrow>
          (case add_required (placeholder framework) (required_files framework) zf of
             (zf, Some e) \<Rightarrow> (zf, out @ [zip_error e])
           | (zf, None) \<Rightarrow>
               (case writestr zf ''README.md'' (readme_content framework) of
                  Inl e \<Rightarrow> (zf, out @ [zip_error e])
                | Inr zf \<Rightarrow> (zf, out))))"

section \<open>The script: session state and the two button handlers\<close>

text \<open>
  \<open>st.session_state\<close> is a dictionary that lives as long as the browser session.
  The outcome of the completion call of lines 163 to 169 is outside the program: the
  \<open>n\<close>-th call of a session either raises (also when the returned content is not a
  string) or returns the content. The prompt text has no influence on what the
  handlers do with the answer and is not modelled.
\<close>

type_synonym session_state = "string \<rightharpoonup> string"

datatype api_result = ApiRaises string | ApiContent string

record world =
  session :: session_state
  api_calls :: nat

datatype button = NoButton | GenerateCode | DownloadZIP

record inputs =
  requirements_prompt :: string
  framework :: framework
  style_theme :: string
  clicked :: button

datatype startup = GroqImportFails | NoApiKey | ClientInitRaises string | StartupOk

text \<open>Lines 29 to 33.\<close>

definition init_session :: "session_state \<Rightarrow> session_state" where
  "init_session s =
     (let s = (if ''generated_code'' \<notin> dom s then s(''generated_code'' \<mapsto> []) else s)
      in if ''fine_tuned_code'' \<notin> dom s then s(''fine_tuned_code'' \<mapsto> []) else s)"

definition empty_response_error :: string where
  "empty_response_error = ''The API returned an empty response. Please try again.''"

text \<open>
  Lines 61 to 251: the body of \<open>if st.sidebar.button("Generate Code")\<close>. There is
  one completion call and no loop around it; a call that raises is caught by the
  \<open>except Exception\<close> of line 250. The spinner and the variable \<open>language\<close>,
  which is assigned and never read, are left out.
\<close>

definition generate_handler :: "(nat \<Rightarrow> api_result) \<Rightarrow> inputs \<Rightarrow> world \<Rightarrow> world \<times> ui list" where
  "generate_handler api inp w =
     (if strip (requirements_prompt inp) = []
      then (w, [SidebarWarning ''Please enter the website requirements prompt.''])
      else
        (let answer = api (api_calls w);
             w = w\<lparr>api_calls := Suc (api_calls w)\<rparr>
         in case answer of
              ApiRaises e \<Rightarrow> (w, [StError (''An error occurred while generating code: '' @ e)])
            | ApiContent content \<Rightarrow>
                (let generated_code = strip content
                 in if generated_code = []
                    then (w, [StError empty_response_error])
                    else
                      (let s = (session w)(''generated_code'' \<mapsto> generated_code);
                           s = s(''fine_tuned_code'' \<mapsto> generated_code);
                           w = w\<lparr>session := s\<rparr>
                       in if framework inp = HtmlCssJs
                          then (w, live_preview generated_code)
                          else (w, [])))))"

text \<open>Lines 353 to 363: the body of \<open>if st.sidebar.button("Download ZIP")\<close>.\<close>

definition download_handler :: "inputs \<Rightarrow> world \<Rightarrow> ui list" where
  "download_handler inp w =
     (case session w ''fine_tuned_code'' of
        None \<Rightarrow> [UncaughtAttributeError ''fine_tuned_code'']
      | Some fine_tuned \<Rightarrow>
          if fine_tuned \<noteq> []
          then (case session w ''generated_code'' of
                  None \<Rightarrow> [UncaughtAttributeError ''generated_code'']
                | Some generated \<Rightarrow>
                    (let (zip_buffer, out) = create_zip_file generated (framework inp)
                     in out @ [DownloadButton zip_buffer
                                 (framework_lower (framework inp) @ ''_code_base.zip'')]))
          else [SidebarWarning ''Generate the code first before downloading.''])"

text \<open>
  One run of the script, top to bottom. A failed start shows its error and stops
  (\<open>st.stop()\<close>) before the session state is touched. At most one button is
  reported as clicked in a run.
\<close>

definition run_script :: "(nat \<Rightarrow> api_result) \<Rightarrow> startup \<Rightarrow> inputs \<Rightarrow> world \<Rightarrow> world \<times> ui list" where
  "run_script api su inp w =
     (case su of
        GroqImportFails \<Rightarrow>
          (w, [StError (''Failed to import Groq. Please ensure the '' @ [CHR 0x27] @ ''groq'' @
                        [CHR 0x27] @ '' package is installed correctly.'')])
      | NoApiKey \<Rightarrow> (w, [StError ''GROQ_API_KEY not found in environment variables.''])
      | ClientInitRaises e \<Rightarrow> (w, [StError (''Error initializing Groq client: '' @ e)])
      | StartupOk \<Rightarrow>
          (let w = w\<lparr>session := init_session (session w)\<rparr>;
               (w, out1) = (if clicked inp = GenerateCode then generate_handler api inp w
                            else (w, []));
               out2 = (if clicked inp = DownloadZIP then download_handler inp w else [])
           in (w, out1 @ out2)))"

text \<open>A session: a fresh dictionary, then any number of runs.\<close>

definition fresh_world :: world where
  "fresh_world = \<lparr>session = Map.empty, api_calls = 0\<rparr>"

fun run_session :: "(nat \<Rightarrow> api_result) \<Rightarrow> (startup \<times> inputs) list \<Rightarrow> world \<Rightarrow> world" where
  "run_session api [] w = w"
| "run_session api ((su, inp) # runs) w = run_session api runs (fst (run_script api su inp w))"

section \<open>The extraction result\<close>

text \<open>
  What one pass of a section loop does with one fragment, read off the loop body:
  the pair it extracts, if any, and the warning it shows, if any. The loops above are
  proved below to be these two maps applied fragment by fragment, the archive loop up
  to the first fragment whose pair \<open>writestr\<close> refuses.
\<close>

definition section_entry :: "string \<Rightarrow> (string \<times> string) option" where
  "section_entry section =
     (if strip section = [] then None
      else map_option (\<lambda>(file_name, body). (strip file_name, strip (strip_backticks body)))
             (split_newline_once section))"

definition section_warning :: "string \<Rightarrow> ui option" where
  "section_warning section =
     (if strip section \<noteq> [] \<and> newline \<notin> set section
      then Some (StWarning (unexpected_format section)) else None)"

definition extraction :: "string \<Rightarrow> (string \<times> string) list" where
  "extraction code = List.map_filter section_entry (py_split file_marker code)"

definition extraction_warnings :: "string \<Rightarrow> ui list" where
  "extraction_warnings code = List.map_filter section_warning (py_split file_marker code)"

definition stored :: "string \<times> string \<Rightarrow> string \<times> string" where
  "stored e = (zip_filename (fst e), snd e)"

definition last_content :: "(string \<times> string) list \<Rightarrow> string \<Rightarrow> string \<Rightarrow> string" where
  "last_content es path dflt = (case map_of (rev es) path of None \<Rightarrow> dflt | Some c \<Rightarrow> c)"



text \<open>
  The exception that writing the pair of a fragment raises, if any; the fragments the
  archive loop gets through; and the exception that ends the loop, if any.
\<close>

definition fragment_error :: "string \<Rightarrow> zip_exception option" where
  "fragment_error section =
     (case section_entry section of
        None \<Rightarrow> None
      | Some (file_path, file_content) \<Rightarrow>
          (case writestr [] file_path file_content of Inl e \<Rightarrow> Some e | Inr zf \<Rightarrow> None))"

definition reached :: "string list \<Rightarrow> string list" where
  "reached sections = takeWhile (\<lambda>section. fragment_error section = None) sections"

fun first_error :: "string list \<Rightarrow> zip_exception option" where
  "first_error [] = None"
| "first_error (section # sections) =
     (case fragment_error section of None \<Rightarrow> first_error sections | Some e \<Rightarrow> Some e)"


text \<open>The two slots of the session hold the same (both absent, or the same text).\<close>

definition slots_agree :: "world \<Rightarrow> bool" where
  "slots_agree w = (session w ''fine_tuned_code'' = session w ''generated_code'')"

text \<open>Scenario A of the specification.\<close>

definition scenario_A :: string where
  "scenario_A =
     ''### FILE: index.html\<newline>```html\<newline><h1>Hi</h1>\<newline>```\<newline>'' @
     ''### FILE: styles.css\<newline>```css\<newline>h1{color:red;}\<newline>```\<newline>'' @
     ''### FILE: script.js\<newline>```javascript\<newline>console.log(1);\<newline>```''"

section \<open>The loops, fragment by fragment\<close>

lemma writestr_shift:
  "writestr zf name data =
     (case writestr [] name data of Inl e \<Rightarrow> Inl e | Inr z \<Rightarrow> Inr (zf @ z))"
  by (simp add: writestr_def Let_def)

lemma writestr_Inr:
  "writestr zf name data = Inr zf' \<Longrightarrow> zf' = zf @ [(zip_filename name, data)]"
  by (simp add: writestr_def Let_def split: if_splits)

lemma write_sections_append:
  "write_sections (xs @ ys) zf out =
     (case write_sections xs zf out of
        (zf1, out1, None) \<Rightarrow> write_sections ys zf1 out1
      | (zf1, out1, Some e) \<Rightarrow> (zf1, out1, Some e))"
proof (induction xs arbitrary: zf out)
  case Nil
  then show ?case by simp
next
  case (Cons s xs)
  show ?case
    by (simp add: Cons.IH split: option.split sum.split prod.split)
qed

lemma write_sections_eq:
  "write_sections secs zf out =
     (zf @ map stored (List.map_filter section_entry (reached secs)),
      out @ List.map_filter section_warning (reached secs),
      first_error secs)"
proof (induction secs arbitrary: zf out)
  case Nil
  then show ?case by (simp add: reached_def)
next
  case (Cons s secs)
  note IH = Cons.IH [unfolded reached_def]
  show ?case
  proof (cases "strip s = []")
    case True
    then show ?thesis
      by (simp add: IH reached_def fragment_error_def section_entry_def section_warning_def)
  next
    case False
    show ?thesis
    proof (cases "split_newline_once s")
      case None
      then have "newline \<notin> set s"
        by (simp add: split_newline_once_def split: if_splits)
      with False None show ?thesis
        by (simp add: IH reached_def fragment_error_def section_entry_def section_warning_def)
    next
      case (Some p)
      then have nl: "newline \<in> set s"
        by (simp add: split_newline_once_def split: if_splits)
      obtain file_name body where p: "p = (file_name, body)"
        by (cases p)
      show ?thesis
      proof (cases "writestr [] (strip file_name) (strip (strip_backticks body))")
        case (Inl e)
        with False Some p nl show ?thesis
          by (simp add: writestr_shift [of zf] reached_def fragment_error_def
              section_entry_def)
      next
        case (Inr z)
        from writestr_Inr [OF Inr]
        have z: "z = [(zip_filename (strip file_name), strip (strip_backticks body))]"
          by simp
        from False Some p nl Inr show ?thesis
          by (simp add: writestr_shift [of zf] IH reached_def fragment_error_def
              section_entry_def section_warning_def stored_def z)
      qed
    qed
  qed
qed

lemma first_error_None_reached: "first_error secs = None \<Longrightarrow> reached secs = secs"
  by (induction secs) (auto simp: reached_def split: option.splits)

lemma last_content_Cons:
  "last_content (e # es) path dflt =
     last_content es path (if fst e = path then snd e else dflt)"
  by (cases e) (simp add: last_content_def map_add_def split: option.split)

lemma preview_sections_eq:
  "preview_sections secs v out =
     (\<lparr>html_code = last_content (List.map_filter section_entry secs) ''index.html'' (html_code v),
       css_code = last_content (List.map_filter section_entry secs) ''styles.css'' (css_code v),
       js_code = last_content (List.map_filter section_entry secs) ''script.js'' (js_code v)\<rparr>,
      out @ List.map_filter section_warning secs)"
proof (induction secs arbitrary: v out)
  case Nil
  then show ?case by (simp add: last_content_def)
next
  case (Cons s secs)
  show ?case
  proof (cases "strip s = []")
    case True
    then show ?thesis
      by (simp add: Cons.IH section_entry_def section_warning_def)
  next
    case False
    show ?thesis
    proof (cases "split_newline_once s")
      case None
      then have "newline \<notin> set s"
        by (simp add: split_newline_once_def split: if_splits)
      with False None show ?thesis
        by (simp add: Cons.IH section_entry_def section_warning_def)
    next
      case (Some p)
      then have "newline \<in> set s"
        by (simp add: split_newline_once_def split: if_splits)
      with False Some show ?thesis
        by (cases p) (simp add: Cons.IH section_entry_def section_warning_def
            last_content_Cons)
    qed
  qed
qed


lemma add_required_eq:
  "distinct reqs \<Longrightarrow>
   (\<forall>r \<in> set reqs. zip_filename r = r \<and> r \<noteq> [] \<and> encoded_length r \<le> 65535) \<Longrightarrow>
   add_required ph reqs zf =
     (zf @ map (\<lambda>r. (r, ph r)) (filter (\<lambda>r. r \<notin> set (namelist zf)) reqs), None)"
proof (induction reqs arbitrary: zf)
  case Nil
  then show ?case by simp
next
  case (Cons r reqs)
  have w: "writestr zf r d = Inr (zf @ [(r, d)])" for d
    using Cons.prems by (simp add: writestr_def Let_def)
  have rest: "filter (\<lambda>x. x \<notin> set (namelist (zf @ [(r, d)]))) reqs =
              filter (\<lambda>x. x \<notin> set (namelist zf)) reqs" for d
    using Cons.prems by (intro filter_cong) (auto simp: namelist_def)
  from Cons.prems have "distinct reqs"
    "\<forall>r \<in> set reqs. zip_filename r = r \<and> r \<noteq> [] \<and> encoded_length r \<le> 65535"
    by simp_all
  then show ?case
    using Cons.IH rest by (simp add: w)
qed

lemma required_files_distinct: "distinct (required_files fw)"
  by (cases fw) simp_all

lemma required_files_writable:
  "\<forall>r \<in> set (required_files fw). zip_filename r = r \<and> r \<noteq> [] \<and> encoded_length r \<le> 65535"
  by (cases fw) (simp_all add: zip_filename_def nul_def encoded_length_def)

lemma readme_written:
  "writestr zf ''README.md'' data = Inr (zf @ [(''README.md'', data)])"
  by (simp add: writestr_def zip_filename_def nul_def encoded_length_def)

lemma create_zip_file_cases:
  "create_zip_file code fw =
     (case write_sections (py_split file_marker code) [] [] of
        (zf, out, Some e) \<Rightarrow> (zf, out @ [zip_error e])
      | (zf, out, None) \<Rightarrow>
          (zf @ map (\<lambda>req_file. (req_file, placeholder fw req_file))
                  (filter (\<lambda>req_file. req_file \<notin> fst ` set zf) (required_files fw)) @
           [(''README.md'', readme_content fw)], out))"
  unfolding create_zip_file_def
    add_required_eq [OF required_files_distinct required_files_writable]
  by (simp add: readme_written namelist_def split: prod.split option.split)



lemma map_filter_append: "List.map_filter f (xs @ ys) = List.map_filter f xs @ List.map_filter f ys"
  by (simp add: List.map_filter_def)

lemma section_entry_no_newline: "newline \<notin> set s \<Longrightarrow> section_entry s = None"
  by (simp add: section_entry_def split_newline_once_def)

lemma first_error_append:
  "first_error (xs @ ys) = (case first_error xs of None \<Rightarrow> first_error ys | Some e \<Rightarrow> Some e)"
  by (induction xs) (auto split: option.splits)

lemma written_is_extraction:
  "first_error (py_split file_marker code) = None \<Longrightarrow>
   write_sections (py_split file_marker code) [] [] =
     (map stored (extraction code), extraction_warnings code, None)"
  by (simp add: write_sections_eq first_error_None_reached extraction_def
      extraction_warnings_def)

lemma create_zip_file_eq:
  "create_zip_file code fw =
     (case first_error (py_split file_marker code) of
        None \<Rightarrow>
          (map stored (extraction code) @
           map (\<lambda>req_file. (req_file, placeholder fw req_file))
             (filter (\<lambda>req_file. req_file \<notin> fst ` set (map stored (extraction code)))
                (required_files fw)) @
           [(''README.md'', readme_content fw)],
           extraction_warnings code)
      | Some e \<Rightarrow>
          (map stored (List.map_filter section_entry (reached (py_split file_marker code))),
           List.map_filter section_warning (reached (py_split file_marker code)) @
           [zip_error e]))"
proof (cases "first_error (py_split file_marker code)")
  case None
  then show ?thesis
    by (simp add: create_zip_file_cases written_is_extraction)
next
  case (Some e)
  then show ?thesis
    by (simp add: create_zip_file_cases write_sections_eq)
qed


text \<open>The definitions that evaluating the model on a concrete text unfolds.\<close>

lemmas py_eval = file_marker_def strip_def strip_while_def py_isspace_def strip_backticks_def
  backtick_def split_newline_once_def newline_def writestr_def zip_filename_def nul_def
  encoded_length_def Let_def

section \<open>Fence stripping on Scenario A\<close>

text \<open>
  Claim C1: for a well-formed response the extracted contents are free of the fence
  markers, of the language tag on the opening fence and of surrounding whitespace; for
  Scenario A the three contents are \<open><h1>Hi</h1>\<close>, \<open>h1{color:red;}\<close> and
  \<open>console.log(1);\<close>.

  The code does not do this. \<open>strip("```")\<close> removes backticks at the two ends only:
  the language tag after the opening fence stays, and a closing fence that is followed
  by the newline before the next marker stays as well. On Scenario A both loops give
  the three paths with the contents below, and the archive loop ends without exception.
\<close>

theorem scenario_A_keeps_fence_text:
  "write_sections (py_split file_marker scenario_A) [] [] =
     ([(''index.html'', ''html\<newline><h1>Hi</h1>\<newline>```''),
       (''styles.css'', ''css\<newline>h1{color:red;}\<newline>```''),
       (''script.js'', ''javascript\<newline>console.log(1);'')], [], None) \<and>
   fst (preview_sections (py_split file_marker scenario_A)
          \<lparr>html_code = [], css_code = [], js_code = []\<rparr> []) =
     \<lparr>html_code = ''html\<newline><h1>Hi</h1>\<newline>```'',
      css_code = ''css\<newline>h1{color:red;}\<newline>```'',
      js_code = ''javascript\<newline>console.log(1);''\<rparr>"
  by (simp add: scenario_A_def py_eval)

section \<open>Responses without a marker, and the text before the first marker\<close>




section \<open>The members of the archive\<close>




section \<open>Fragments without a newline\<close>

text \<open>
  Claim C4, as stated: every fragment that has no newline is skipped with a warning,
  and the operation never aborts because of it. A blank fragment is skipped before the
  split is tried, without any message: in the response below the fragment between the
  two markers is empty, and no warning is shown.
\<close>

theorem blank_fragment_counterexample:
  "py_split file_marker ''### FILE: ### FILE: a\<newline>b'' = ['''', '''', ''a\<newline>b''] \<and>
   write_sections (py_split file_marker ''### FILE: ### FILE: a\<newline>b'') [] [] =
     ([(''a'', ''b'')], [], None)"
  by (simp add: py_eval)

text \<open>
  Claim C4, amended. A fragment without a newline never yields an entry and never
  raises. In the preview loop the three variables are those of the response without
  that fragment, and the warnings of the other fragments are shown as before. The
  archive loop, when it reaches the fragment (no earlier section has made
  \<open>writestr\<close> raise), leaves the archive as it is and goes on with the fragments after
  it; the members written and the exception that ends the loop, if any, are those of
  the response without that fragment. In both loops, if the fragment is not blank, one
  warning is shown at its place: \<open>Unexpected format in section: \<close>, the first 30
  characters of the fragment, and \<open>...\<close>. If it is blank, nothing is shown for it.
\<close>

theorem fragment_without_newline:
  "newline \<notin> set section \<Longrightarrow>
   write_sections (before @ section # after) zf out =
     (case write_sections before zf out of
        (zf1, out1, Some e) \<Rightarrow> (zf1, out1, Some e)
      | (zf1, out1, None) \<Rightarrow>
          write_sections after zf1
            (out1 @ (if strip section = [] then []
                     else [StWarning (''Unexpected format in section: '' @ take 30 section @ ''...'')]))) \<and>
   fst (write_sections (before @ section # after) zf out) =
     fst (write_sections (before @ after) zf out) \<and>
   snd (snd (write_sections (before @ section # after) zf out)) =
     snd (snd (write_sections (before @ after) zf out)) \<and>
   preview_sections (before @ section # after) v out =
     (fst (preview_sections (before @ after) v out),
      snd (preview_sections before v out) @
      (if strip section = [] then []
       else [StWarning (''Unexpected format in section: '' @ take 30 section @ ''...'')]) @
      snd (preview_sections after v []))"
proof -
  assume nl: "newline \<notin> set section"
  have one: "write_sections (section # after) zf1 out1 =
      write_sections after zf1
        (out1 @ (if strip section = [] then []
                 else [StWarning (''Unexpected format in section: '' @ take 30 section @ ''...'')]))"
    for zf1 out1
    using nl by (simp add: split_newline_once_def unexpected_format_def)
  have a: "write_sections (before @ section # after) zf out =
     (case write_sections before zf out of
        (zf1, out1, Some e) \<Rightarrow> (zf1, out1, Some e)
      | (zf1, out1, None) \<Rightarrow>
          write_sections after zf1
            (out1 @ (if strip section = [] then []
                     else [StWarning (''Unexpected format in section: '' @ take 30 section @ ''...'')])))"
    by (simp only: write_sections_append one split: prod.split option.split)
  have none: "section_entry section = None" "fragment_error section = None"
    using nl by (simp_all add: section_entry_no_newline fragment_error_def)
  have r: "List.map_filter section_entry (reached (before @ section # after)) =
           List.map_filter section_entry (reached (before @ after))"
    using none by (simp add: reached_def takeWhile_append map_filter_append)
  have b: "fst (write_sections (before @ section # after) zf out) =
           fst (write_sections (before @ after) zf out)"
    by (simp add: write_sections_eq r)
  have c: "snd (snd (write_sections (before @ section # after) zf out)) =
           snd (snd (write_sections (before @ after) zf out))"
    using none by (simp add: write_sections_eq first_error_append split: option.split)
  have d: "preview_sections (before @ section # after) v out =
     (fst (preview_sections (before @ after) v out),
      snd (preview_sections before v out) @
      (if strip section = [] then []
       else [StWarning (''Unexpected format in section: '' @ take 30 section @ ''...'')]) @
      snd (preview_sections after v []))"
    using nl by (simp add: preview_sections_eq map_filter_append section_entry_no_newline
        section_warning_def unexpected_format_def)
  from a b c d show ?thesis
    by (intro conjI)
qed

theorem fragment_without_newline_witness:
  "newline \<notin> set ''styles.css'' \<and>
   write_sections ([''a\<newline>b''] @ ''styles.css'' # [''c\<newline>d'']) [] [] =
     ([(''a'', ''b''), (''c'', ''d'')],
      [StWarning ''Unexpected format in section: styles.css...''], None)"
proof -
  have h: "newline \<notin> set ''styles.css''"
    by (simp add: newline_def)
  have b: "write_sections [''a\<newline>b''] [] [] = ([(''a'', ''b'')], [], None)"
    by (simp add: py_eval)
  have t: "write_sections ([''a\<newline>b''] @ ''styles.css'' # [''c\<newline>d'']) [] [] =
     (case write_sections [''a\<newline>b''] [] [] of
        (zf1, out1, Some e) \<Rightarrow> (zf1, out1, Some e)
      | (zf1, out1, None) \<Rightarrow>
          write_sections [''c\<newline>d''] zf1
            (out1 @ (if strip ''styles.css'' = [] then []
                     else [StWarning (''Unexpected format in section: '' @ take 30 ''styles.css'' @ ''...'')])))"
    using fragment_without_newline [OF h, of "[''a\<newline>b'']" "[''c\<newline>d'']" "[]" "[]"]
    by blast
  have c: "write_sections ([''a\<newline>b''] @ ''styles.css'' # [''c\<newline>d'']) [] [] =
     ([(''a'', ''b''), (''c'', ''d'')],
      [StWarning ''Unexpected format in section: styles.css...''], None)"
    unfolding t b by (simp add: py_eval)
  from h c show ?thesis
    by (intro conjI)
qed

section \<open>The live preview\<close>

lemma live_preview_eq:
  "live_preview code =
     extraction_warnings code @
     (if last_content (extraction code) ''index.html'' [] \<noteq> [] \<and>
         last_content (extraction code) ''styles.css'' [] \<noteq> [] \<and>
         last_content (extraction code) ''script.js'' [] \<noteq> []
      then [Subheader ''Live Preview'',
            ComponentsHtml (complete_html
              \<lparr>html_code = last_content (extraction code) ''index.html'' [],
               css_code = last_content (extraction code) ''styles.css'' [],
               js_code = last_content (extraction code) ''script.js'' []\<rparr>)]
      else [StWarning preview_warning])"
  by (simp add: live_preview_def preview_sections_eq extraction_def extraction_warnings_def)

text \<open>
  Claim C5, as stated: the preview document is assembled if and only if the three paths
  \<open>index.html\<close>, \<open>styles.css\<close> and \<open>script.js\<close> were extracted.
  The test of line 222 is on the three contents, not on the paths: a section that was
  extracted with an empty content counts as missing. Below all three paths are
  extracted, the content of \<open>index.html\<close> is empty, and the warning is shown.
\<close>

theorem empty_content_counterexample:
  "map fst (fst (write_sections (py_split file_marker
      ''### FILE: index.html\<newline>```\<newline>### FILE: styles.css\<newline>a\<newline>### FILE: script.js\<newline>b'') [] [])) =
     [''index.html'', ''styles.css'', ''script.js''] \<and>
   live_preview
      ''### FILE: index.html\<newline>```\<newline>### FILE: styles.css\<newline>a\<newline>### FILE: script.js\<newline>b'' =
     [StWarning preview_warning]"
  by (simp add: live_preview_def py_eval)

text \<open>
  Claim C5, amended: for the HTML/CSS/JavaScript framework the preview document is
  assembled if and only if each of the three paths was extracted and the content of
  the last section of that path is not empty. The document then inlines these three
  contents in the wrapper; otherwise the warning is shown in its place. For the other
  two frameworks the handler shows neither.
\<close>

theorem preview_needs_three_contents:
  "strip (requirements_prompt inp) \<noteq> [] \<Longrightarrow>
   api (api_calls w) = ApiContent content \<Longrightarrow>
   strip content \<noteq> [] \<Longrightarrow>
   snd (generate_handler api inp w) =
     (if framework inp = HtmlCssJs
      then extraction_warnings (strip content) @
        (if last_content (extraction (strip content)) ''index.html'' [] \<noteq> [] \<and>
            last_content (extraction (strip content)) ''styles.css'' [] \<noteq> [] \<and>
            last_content (extraction (strip content)) ''script.js'' [] \<noteq> []
         then [Subheader ''Live Preview'',
               ComponentsHtml (complete_html
                 \<lparr>html_code = last_content (extraction (strip content)) ''index.html'' [],
                  css_code = last_content (extraction (strip content)) ''styles.css'' [],
                  js_code = last_content (extraction (strip content)) ''script.js'' []\<rparr>)]
         else [StWarning preview_warning])
      else [])"
  by (simp add: generate_handler_def Let_def live_preview_eq)

theorem preview_needs_three_contents_witness:
  "strip ''a page'' \<noteq> [] \<and> strip ''### FILE: index.html\<newline><p>'' \<noteq> [] \<and>
   snd (generate_handler (\<lambda>n. ApiContent ''### FILE: index.html\<newline><p>'')
          \<lparr>requirements_prompt = ''a page'', framework = HtmlCssJs, style_theme = ''Modern'',
           clicked = GenerateCode\<rparr> fresh_world) =
     [StWarning preview_warning]"
proof -
  let ?inp = "\<lparr>requirements_prompt = ''a page'', framework = HtmlCssJs,
               style_theme = ''Modern'', clicked = GenerateCode\<rparr>"
  have h1: "strip (requirements_prompt ?inp) \<noteq> []"
    by (simp add: strip_def strip_while_def py_isspace_def)
  have h2: "(\<lambda>n. ApiContent ''### FILE: index.html\<newline><p>'') (api_calls fresh_world) =
              ApiContent ''### FILE: index.html\<newline><p>''"
    by simp
  have h3: "strip ''### FILE: index.html\<newline><p>'' \<noteq> []"
    by (simp add: strip_def strip_while_def py_isspace_def)
  have e: "strip ''### FILE: index.html\<newline><p>'' = ''### FILE: index.html\<newline><p>''"
    by (simp add: strip_def strip_while_def py_isspace_def)
  have x: "extraction ''### FILE: index.html\<newline><p>'' = [(''index.html'', ''<p>'')]"
    by (simp add: extraction_def section_entry_def file_marker_def strip_def strip_while_def
        py_isspace_def strip_backticks_def backtick_def split_newline_once_def newline_def)
  have y: "extraction_warnings ''### FILE: index.html\<newline><p>'' = []"
    by (simp add: extraction_warnings_def section_warning_def file_marker_def strip_def
        strip_while_def py_isspace_def newline_def)
  from preview_needs_three_contents [OF h1 h2 h3] h1 h3 show ?thesis
    by (simp add: e x y last_content_def)
qed

section \<open>Two sections with the same path\<close>








section \<open>An empty completion\<close>

text \<open>
  Claim C7: when the completion call returns text that is empty (after the
  \<open>strip()\<close> of line 169), the generate handler shows one error message and nothing
  else, has made exactly one completion call, and leaves the session state as it was:
  the stored generated text and fine-tuned text are unchanged.
\<close>

theorem empty_completion_aborts:
  "strip (requirements_prompt inp) \<noteq> [] \<Longrightarrow>
   api (api_calls w) = ApiContent content \<Longrightarrow>
   strip content = [] \<Longrightarrow>
   generate_handler api inp w =
     (w\<lparr>api_calls := Suc (api_calls w)\<rparr>, [StError empty_response_error]) \<and>
   session (fst (generate_handler api inp w)) = session w \<and>
   (clicked inp = GenerateCode \<longrightarrow>
      run_script api StartupOk inp w =
        (w\<lparr>session := init_session (session w), api_calls := Suc (api_calls w)\<rparr>,
         [StError empty_response_error]))"
  by (simp add: generate_handler_def run_script_def Let_def)

theorem empty_completion_aborts_witness:
  "strip ''a page'' \<noteq> [] \<and> strip '' \<newline>'' = [] \<and>
   generate_handler (\<lambda>n. ApiContent '' \<newline>'')
     \<lparr>requirements_prompt = ''a page'', framework = React, style_theme = ''Modern'',
      clicked = GenerateCode\<rparr> fresh_world =
     (fresh_world\<lparr>api_calls := Suc 0\<rparr>, [StError empty_response_error])"
proof -
  let ?inp = "\<lparr>requirements_prompt = ''a page'', framework = React,
               style_theme = ''Modern'', clicked = GenerateCode\<rparr>"
  have h1: "strip (requirements_prompt ?inp) \<noteq> []"
    by (simp add: strip_def strip_while_def py_isspace_def)
  have h2: "(\<lambda>n. ApiContent '' \<newline>'') (api_calls fresh_world) = ApiContent '' \<newline>''"
    by simp
  have h3: "strip '' \<newline>'' = []"
    by (simp add: strip_def strip_while_def py_isspace_def)
  from empty_completion_aborts [OF h1 h2 h3] h1 h3 show ?thesis
    by (simp add: fresh_world_def)
qed

section \<open>The generate handler, field by field\<close>

lemma generate_handler_session:
  "session (fst (generate_handler api inp w)) =
     (if strip (requirements_prompt inp) = [] then session w
      else case api (api_calls w) of
             ApiRaises e \<Rightarrow> session w
           | ApiContent content \<Rightarrow>
               if strip content = [] then session w
               else (session w)(''generated_code'' \<mapsto> strip content,
                                ''fine_tuned_code'' \<mapsto> strip content))"
  by (simp add: generate_handler_def Let_def split: api_result.split)

lemma generate_handler_calls:
  "api_calls (fst (generate_handler api inp w)) =
     (if strip (requirements_prompt inp) = [] then api_calls w else Suc (api_calls w))"
  by (simp add: generate_handler_def Let_def split: api_result.split)

lemma generate_handler_output:
  "snd (generate_handler api inp w) =
     (if strip (requirements_prompt inp) = []
      then [SidebarWarning ''Please enter the website requirements prompt.'']
      else case api (api_calls w) of
             ApiRaises e \<Rightarrow> [StError (''An error occurred while generating code: '' @ e)]
           | ApiContent content \<Rightarrow>
               if strip content = [] then [StError empty_response_error]
               else if framework inp = HtmlCssJs then live_preview (strip content) else [])"
  by (simp add: generate_handler_def Let_def split: api_result.split)

section \<open>The same response twice\<close>

text \<open>
  Claim C8: extraction is deterministic and idempotent, and archive creation is
  deterministic given the extraction result and the framework. The loops start from
  fresh variables and a fresh buffer each time, so nothing of an earlier run enters:
  when the completion call answers the same text twice, the second run of the generate
  handler shows what the first run showed (the preview built from the extracted
  contents included), leaves the session as the first run left it, and the download
  handler produces the same archive after either run. The archive is a function of what
  the section loop extracted and of the framework: two texts with the same extraction
  give the same archive and the same warnings.
\<close>

theorem same_response_same_result:
  "api (api_calls w) = ApiContent response \<Longrightarrow>
   api (Suc (api_calls w)) = ApiContent response \<Longrightarrow>
   snd (generate_handler api inp (fst (generate_handler api inp w))) =
     snd (generate_handler api inp w) \<and>
   session (fst (generate_handler api inp (fst (generate_handler api inp w)))) =
     session (fst (generate_handler api inp w)) \<and>
   download_handler inp' (fst (generate_handler api inp (fst (generate_handler api inp w)))) =
     download_handler inp' (fst (generate_handler api inp w)) \<and>
   (write_sections (py_split file_marker code) [] [] =
      write_sections (py_split file_marker code') [] [] \<longrightarrow>
    create_zip_file code fw = create_zip_file code' fw)"
proof -
  assume a1: "api (api_calls w) = ApiContent response"
    and a2: "api (Suc (api_calls w)) = ApiContent response"
  let ?w1 = "fst (generate_handler api inp w)"
  let ?w2 = "fst (generate_handler api inp ?w1)"
  have answer: "api (api_calls ?w1) = ApiContent response"
    if "strip (requirements_prompt inp) \<noteq> []"
    using that a2 by (simp add: generate_handler_calls)
  have out: "snd (generate_handler api inp ?w1) = snd (generate_handler api inp w)"
    using a1 answer by (simp add: generate_handler_output)
  have ses: "session ?w2 = session ?w1"
    using a1 answer by (simp add: generate_handler_session)
  have dl: "download_handler inp' ?w2 = download_handler inp' ?w1"
    by (simp only: download_handler_def ses)
  have zip: "create_zip_file code fw = create_zip_file code' fw"
    if "write_sections (py_split file_marker code) [] [] =
        write_sections (py_split file_marker code') [] []"
    using that by (simp add: create_zip_file_def)
  from out ses dl zip show ?thesis by blast
qed

theorem same_response_same_result_witness:
  "write_sections (py_split file_marker ''### FILE: a\<newline>b'') [] [] =
     write_sections (py_split file_marker ''### FILE: a \<newline>b'') [] [] \<and>
   create_zip_file ''### FILE: a\<newline>b'' HtmlCssJs =
     create_zip_file ''### FILE: a \<newline>b'' HtmlCssJs \<and>
   snd (generate_handler (\<lambda>n. ApiContent ''### FILE: a\<newline>b'')
          \<lparr>requirements_prompt = ''a page'', framework = HtmlCssJs, style_theme = ''Modern'',
           clicked = GenerateCode\<rparr>
          (fst (generate_handler (\<lambda>n. ApiContent ''### FILE: a\<newline>b'')
             \<lparr>requirements_prompt = ''a page'', framework = HtmlCssJs, style_theme = ''Modern'',
              clicked = GenerateCode\<rparr> fresh_world))) =
   snd (generate_handler (\<lambda>n. ApiContent ''### FILE: a\<newline>b'')
          \<lparr>requirements_prompt = ''a page'', framework = HtmlCssJs, style_theme = ''Modern'',
           clicked = GenerateCode\<rparr> fresh_world)"
proof -
  let ?api = "\<lambda>n::nat. ApiContent ''### FILE: a\<newline>b''"
  let ?inp = "\<lparr>requirements_prompt = ''a page'', framework = HtmlCssJs,
               style_theme = ''Modern'', clicked = GenerateCode\<rparr>"
  have h0: "write_sections (py_split file_marker ''### FILE: a\<newline>b'') [] [] =
     write_sections (py_split file_marker ''### FILE: a \<newline>b'') [] []"
    by (simp add: py_eval)
  have h1: "?api (api_calls fresh_world) = ApiContent ''### FILE: a\<newline>b''"
    by simp
  have h2: "?api (Suc (api_calls fresh_world)) = ApiContent ''### FILE: a\<newline>b''"
    by simp
  from same_response_same_result [where inp = ?inp and inp' = ?inp
      and code = "''### FILE: a\<newline>b''" and code' = "''### FILE: a \<newline>b''"
      and fw = HtmlCssJs, OF h1 h2] h0
  show ?thesis
    by blast
qed

section \<open>The comment syntax of placeholders\<close>

text \<open>
  Claim C9, as stated: the comment syntax of a placeholder follows the file it stands
  for, \<open>//\<close> for script-like files and \<open>/* */\<close> for stylesheet-like files.
  The code has one f-string per framework branch instead: with nothing extracted, the
  placeholder of \<open>script.js\<close> is a \<open>/* */\<close> comment, and that of the React
  \<open>public/index.html\<close> is a \<open>//\<close> comment.
\<close>

theorem star_comment_for_script_counterexample:
  "map_of (fst (create_zip_file [] HtmlCssJs)) ''script.js'' =
     Some ''/* script.js content missing */'' \<and>
   map_of (fst (create_zip_file [] React)) ''public/index.html'' =
     Some ''// public/index.html content missing''"
  by (simp add: create_zip_file_cases py_eval slash_placeholder_def star_placeholder_def)

text \<open>
  Claim C9, amended: the comment syntax of a placeholder follows the framework.
  When the section loop ends without exception, a required file that the loop did not
  write is in the archive with the content \<open>/* <path> content missing */\<close> for
  HTML/CSS/JavaScript and \<open>// <path> content missing\<close> for React and Angular,
  whatever kind of file it is. When the loop ends with an exception, no placeholder is
  written: the archive has no member of that name.
\<close>

theorem placeholder_comment_by_framework:
  "req_file \<in> set (required_files fw) \<Longrightarrow>
   req_file \<notin> fst ` set (fst (write_sections (py_split file_marker code) [] [])) \<Longrightarrow>
   map_of (fst (create_zip_file code fw)) req_file =
     (case snd (snd (write_sections (py_split file_marker code) [] [])) of
        None \<Rightarrow>
          Some (if fw = HtmlCssJs then ''/* '' @ req_file @ '' content missing */''
                else ''// '' @ req_file @ '' content missing'')
      | Some e \<Rightarrow> None)"
proof -
  assume req: "req_file \<in> set (required_files fw)"
    and absent: "req_file \<notin> fst ` set (fst (write_sections (py_split file_marker code) [] []))"
  obtain zf out exn where w: "write_sections (py_split file_marker code) [] [] = (zf, out, exn)"
    by (cases "write_sections (py_split file_marker code) [] []")
  from absent w have 1: "map_of zf req_file = None"
    by (simp add: map_of_eq_None_iff)
  let ?ph = "map (\<lambda>r. (r, placeholder fw r)) (filter (\<lambda>r. r \<notin> fst ` set zf) (required_files fw))"
  have 2: "map_of ?ph req_file = Some (placeholder fw req_file)"
    using req absent w by (simp add: map_of_map_restrict restrict_map_def)
  have 3: "placeholder fw req_file =
       (if fw = HtmlCssJs then ''/* '' @ req_file @ '' content missing */''
        else ''// '' @ req_file @ '' content missing'')"
    by (cases fw) (simp_all add: slash_placeholder_def star_placeholder_def)
  show ?thesis
  proof (cases exn)
    case None
    then have "fst (create_zip_file code fw) = zf @ ?ph @ [(''README.md'', readme_content fw)]"
      by (simp add: create_zip_file_cases w)
    then show ?thesis
      using 1 2 3 None w by (simp add: map_add_def)
  next
    case (Some e)
    then have "fst (create_zip_file code fw) = zf"
      by (simp add: create_zip_file_cases w)
    then show ?thesis
      using 1 Some w by simp
  qed
qed

theorem placeholder_comment_by_framework_witness:
  "''styles.css'' \<in> set (required_files HtmlCssJs) \<and>
   ''styles.css'' \<notin> fst ` set (fst (write_sections (py_split file_marker ''### FILE: a\<newline>b'') [] [])) \<and>
   map_of (fst (create_zip_file ''### FILE: a\<newline>b'' HtmlCssJs)) ''styles.css'' =
     Some ''/* styles.css content missing */''"
proof -
  have h1: "''styles.css'' \<in> set (required_files HtmlCssJs)"
    by simp
  have w: "write_sections (py_split file_marker ''### FILE: a\<newline>b'') [] [] =
             ([(''a'', ''b'')], [], None)"
    by (simp add: py_eval)
  have h2: "''styles.css'' \<notin> fst ` set (fst (write_sections (py_split file_marker ''### FILE: a\<newline>b'') [] []))"
    unfolding w by simp
  have c: "map_of (fst (create_zip_file ''### FILE: a\<newline>b'' HtmlCssJs)) ''styles.css'' =
     Some ''/* styles.css content missing */''"
    using placeholder_comment_by_framework [OF h1 h2] unfolding w by simp
  from h1 h2 c show ?thesis
    by (intro conjI)
qed

section \<open>The two slots of the session\<close>

lemma init_session_agree:
  "s ''fine_tuned_code'' = s ''generated_code'' \<Longrightarrow>
   init_session s ''fine_tuned_code'' = init_session s ''generated_code''"
  by (auto simp: init_session_def Let_def dom_def)

lemma generate_handler_agree:
  "slots_agree w \<Longrightarrow> slots_agree (fst (generate_handler api inp w))"
  by (simp add: slots_agree_def generate_handler_session split: api_result.split)

lemma run_script_agree:
  "slots_agree w \<Longrightarrow> slots_agree (fst (run_script api su inp w))"
proof (cases su)
  case StartupOk
  assume "slots_agree w"
  then have "slots_agree (w\<lparr>session := init_session (session w)\<rparr>)"
    by (simp add: slots_agree_def init_session_agree)
  then show ?thesis
    using StartupOk generate_handler_agree [of "w\<lparr>session := init_session (session w)\<rparr>" api inp]
    by (simp add: run_script_def Let_def split_beta)
qed (simp_all add: run_script_def)

lemma run_session_agree:
  "slots_agree w \<Longrightarrow> slots_agree (run_session api runs w)"
  by (induction runs arbitrary: w) (auto simp: run_script_agree)

lemma fresh_world_agree: "slots_agree fresh_world"
  by (simp add: slots_agree_def fresh_world_def)

lemma section_warnings_no_button:
  "DownloadButton z n \<notin> set (List.map_filter section_warning secs)"
  by (auto simp: List.map_filter_def section_warning_def)

lemma extraction_warnings_no_button: "DownloadButton z n \<notin> set (extraction_warnings code)"
  by (simp add: extraction_warnings_def section_warnings_no_button)

lemma create_zip_file_no_button: "DownloadButton z n \<notin> set (snd (create_zip_file code fw))"
  by (simp add: create_zip_file_eq extraction_warnings_no_button section_warnings_no_button
      zip_error_def split: option.split)

lemma live_preview_no_button: "DownloadButton z n \<notin> set (live_preview code)"
  by (simp add: live_preview_eq extraction_warnings_no_button)

lemma generate_handler_no_button: "DownloadButton z n \<notin> set (snd (generate_handler api inp w))"
  by (simp add: generate_handler_output live_preview_no_button split: api_result.split)

lemma download_handler_button:
  "DownloadButton z n \<in> set (download_handler inp w) \<Longrightarrow>
   \<exists>fine_tuned generated.
     session w ''fine_tuned_code'' = Some fine_tuned \<and> fine_tuned \<noteq> [] \<and>
     session w ''generated_code'' = Some generated \<and>
     z = fst (create_zip_file generated (framework inp))"
  using create_zip_file_no_button [of z n]
  by (auto simp: download_handler_def split_beta split: option.splits if_splits)

lemma run_script_button:
  "DownloadButton z n \<in> set (snd (run_script api su inp w)) \<Longrightarrow>
   su = StartupOk \<and> clicked inp = DownloadZIP \<and>
   fst (run_script api su inp w) = w\<lparr>session := init_session (session w)\<rparr> \<and>
   DownloadButton z n \<in> set (download_handler inp (w\<lparr>session := init_session (session w)\<rparr>))"
  using generate_handler_no_button [of z n api inp "w\<lparr>session := init_session (session w)\<rparr>"]
  by (cases su) (auto simp: run_script_def Let_def split_beta split: if_splits)

text \<open>
  Claim C10: in every state a session can reach, from the fresh dictionary through any
  number of runs of the script (failed starts, clicks on either button, no click), the
  fine-tuned slot and the generated slot hold the same value. So when a run shows the
  download button, the archive behind it was built from the very text whose
  non-emptiness the handler tested. The states meant are those between the statements
  of the handlers' own assignments: the two slots are assigned by two consecutive
  statements, first at lines 30 and 33, then at lines 175 and 176.
\<close>

theorem slots_stay_equal:
  "w = run_session api runs fresh_world \<Longrightarrow>
   session w ''fine_tuned_code'' = session w ''generated_code'' \<and>
   session (fst (run_script api su inp w)) ''fine_tuned_code'' =
     session (fst (run_script api su inp w)) ''generated_code'' \<and>
   (DownloadButton zip_buffer name \<in> set (snd (run_script api su inp w)) \<longrightarrow>
      (\<exists>code. code \<noteq> [] \<and>
         session (fst (run_script api su inp w)) ''fine_tuned_code'' = Some code \<and>
         session (fst (run_script api su inp w)) ''generated_code'' = Some code \<and>
         zip_buffer = fst (create_zip_file code (framework inp))))"
proof -
  assume w: "w = run_session api runs fresh_world"
  have agree: "slots_agree w"
    unfolding w by (rule run_session_agree [OF fresh_world_agree])
  then have agree': "slots_agree (fst (run_script api su inp w))"
    by (rule run_script_agree)
  have button: "\<exists>code. code \<noteq> [] \<and>
         session (fst (run_script api su inp w)) ''fine_tuned_code'' = Some code \<and>
         session (fst (run_script api su inp w)) ''generated_code'' = Some code \<and>
         zip_buffer = fst (create_zip_file code (framework inp))"
    if "DownloadButton zip_buffer name \<in> set (snd (run_script api su inp w))"
  proof -
    from run_script_button [OF that]
    have eq: "fst (run_script api su inp w) = w\<lparr>session := init_session (session w)\<rparr>"
      and dl: "DownloadButton zip_buffer name \<in>
                 set (download_handler inp (w\<lparr>session := init_session (session w)\<rparr>))"
      by blast+
    from download_handler_button [OF dl] agree' show ?thesis
      unfolding eq slots_agree_def by auto
  qed
  from agree agree' button show ?thesis
    by (auto simp: slots_agree_def)
qed

theorem slots_stay_equal_witness:
  "DownloadButton (fst (create_zip_file ''x'' React)) ''react_code_base.zip'' \<in>
     set (snd (run_script (\<lambda>n. ApiContent ''x'') StartupOk
           \<lparr>requirements_prompt = [], framework = React, style_theme = [],
            clicked = DownloadZIP\<rparr>
           (run_session (\<lambda>n. ApiContent ''x'')
              [(StartupOk, \<lparr>requirements_prompt = ''a page'', framework = React,
                            style_theme = [], clicked = GenerateCode\<rparr>)] fresh_world))) \<and>
   (\<exists>code. code \<noteq> [] \<and>
      session (fst (run_script (\<lambda>n. ApiContent ''x'') StartupOk
           \<lparr>requirements_prompt = [], framework = React, style_theme = [],
            clicked = DownloadZIP\<rparr>
           (run_session (\<lambda>n. ApiContent ''x'')
              [(StartupOk, \<lparr>requirements_prompt = ''a page'', framework = React,
                            style_theme = [], clicked = GenerateCode\<rparr>)] fresh_world)))
        ''fine_tuned_code'' = Some code \<and>
      fst (create_zip_file ''x'' React) = fst (create_zip_file code React))"
proof -
  let ?api = "\<lambda>n::nat. ApiContent ''x''"
  let ?gen = "\<lparr>requirements_prompt = ''a page'', framework = React,
               style_theme = [], clicked = GenerateCode\<rparr>"
  let ?dl = "\<lparr>requirements_prompt = [], framework = React, style_theme = [],
              clicked = DownloadZIP\<rparr>"
  let ?w = "run_session ?api [(StartupOk, ?gen)] fresh_world"
  have h: "DownloadButton (fst (create_zip_file ''x'' React)) ''react_code_base.zip'' \<in>
             set (snd (run_script ?api StartupOk ?dl ?w))"
    by (simp add: run_script_def generate_handler_def download_handler_def init_session_def
        fresh_world_def strip_def strip_while_def py_isspace_def Let_def split_beta)
  from slots_stay_equal [where api = ?api and runs = "[(StartupOk, ?gen)]"
      and su = StartupOk and inp = ?dl and zip_buffer = "fst (create_zip_file ''x'' React)"
      and name = "''react_code_base.zip''", OF refl] h
  have "\<exists>code. code \<noteq> [] \<and>
      session (fst (run_script ?api StartupOk ?dl ?w)) ''fine_tuned_code'' = Some code \<and>
      session (fst (run_script ?api StartupOk ?dl ?w)) ''generated_code'' = Some code \<and>
      fst (create_zip_file ''x'' React) = fst (create_zip_file code (framework ?dl))"
    by blast
  then have "\<exists>code. code \<noteq> [] \<and>
      session (fst (run_script ?api StartupOk ?dl ?w)) ''fine_tuned_code'' = Some code \<and>
      fst (create_zip_file ''x'' React) = fst (create_zip_file code React)"
    by auto
  with h show ?thesis
    by blast
qed

end
